theory Spec2Isabelle
  imports Complex_Main "HOL-Library.Word" "HOL-Library.Sublist"
begin

section \<open>JavaScript values used by the front end\<close>

text \<open>
  A JavaScript string is a sequence of UTF-16 code units. String literals of the source
  that are plain ASCII are written with \<open>lit\<close>; the one literal with Cyrillic letters is
  spelled out by its code units.
\<close>

type_synonym jsstring = "16 word list"

definition lit :: "string \<Rightarrow> jsstring" where
  "lit s = map of_char s"

text \<open>\<open>String.prototype.startsWith\<close> and \<open>String.prototype.includes\<close>.\<close>

definition startsWith :: "jsstring \<Rightarrow> jsstring \<Rightarrow> bool" where
  "startsWith s p = prefix p s"


text \<open>
  The white space and line terminator code units that \<open>String.prototype.trim\<close> strips
  (ECMAScript \<open>WhiteSpace\<close> and \<open>LineTerminator\<close>).
\<close>

definition js_whitespace :: "16 word \<Rightarrow> bool" where
  "js_whitespace c \<longleftrightarrow>
     c \<in> {0x9, 0xA, 0xB, 0xC, 0xD, 0x20, 0xA0, 0x1680, 0x2028, 0x2029, 0x202F, 0x205F,
          0x3000, 0xFEFF}
     \<or> (0x2000 \<le> c \<and> c \<le> 0x200A)"

definition trim :: "jsstring \<Rightarrow> jsstring" where
  "trim s = rev (dropWhile js_whitespace (rev (dropWhile js_whitespace s)))"

text \<open>A thrown \<open>Error\<close> object; only its message is ever inspected.\<close>

datatype js_error = Error (message: jsstring)

text \<open>The notifications of the \<open>sonner\<close> toast library.\<close>

datatype toast = ToastInfo jsstring | ToastSuccess jsstring | ToastError jsstring

text \<open>
  A value as \<open>JSON.parse\<close> returns it, together with \<open>undefined\<close> (the value of a missing
  property). Numbers are finite, so a rational stands for each; an object lists each of
  its keys once.
\<close>

datatype jsval =
    JUndefined
  | JNull
  | JBool bool
  | JNum rat
  | JStr jsstring
  | JArr "jsval list"
  | JObj "(jsstring \<times> jsval) list"



section \<open>The backend actor\<close>

text \<open>
  The backend is remote; each of its methods either returns a value or rejects with an
  error. The shapes of the records mirror the fields the front end reads. Field names
  carry a prefix where two records have a field of the same name.
\<close>

datatype UserRole = admin | user | guest

record UserProfile =
  name :: jsstring

record QPayInvoiceConfig =
  sender_invoice_no :: jsstring
  invoice_receiver_code :: jsstring
  invoice_description :: jsstring
  amount :: int

record InvoiceRecord =
  rec_invoiceId :: jsstring
  rec_amount :: int
  rec_isPaid :: bool
  rec_createdAt :: int

record InvoiceCheckResult =
  hasValidInvoice :: bool
  chk_invoiceData :: "jsstring option"
  chk_amount :: "int option"

record InvoiceResponse =
  invoiceData :: jsstring
  isNewInvoice :: bool
  resp_amount :: int

type_synonym 'a result = "js_error + 'a"

record ('cred, 'pay) actor =
  getCallerUserProfile :: "UserProfile option result"
  ensureCallerUserRole :: "unit result"
  getCallerUserRole :: "UserRole result"
  saveCallerUserProfile :: "UserProfile \<Rightarrow> unit result"
  isCallerAdmin :: "bool result"
  getQPayCredentials :: "'cred option result"
  getQPayInvoiceConfig :: "QPayInvoiceConfig result"
  getUserPayments :: "'pay list result"
  getAllPayments :: "'pay list result"
  getAllInvoices :: "(jsstring \<times> InvoiceRecord) list result"
  getUserInvoice :: "InvoiceRecord option result"
  checkForValidInvoice :: "InvoiceCheckResult result"
  makeQPayTokenRequest :: "jsstring result"
  getValidOrCreateInvoice :: "jsval \<Rightarrow> InvoiceResponse result"
  storeUserInvoice :: "jsval \<Rightarrow> jsstring \<Rightarrow> int \<Rightarrow> unit result"
  checkPaymentStatus :: "jsval \<Rightarrow> jsval \<Rightarrow> bool result"
  recordPayment :: "int \<Rightarrow> jsstring \<Rightarrow> unit result"

section \<open>The query functions of \<open>hooks/useQueries.ts\<close>\<close>

text \<open>
  A query function is run with the actor of the hook (\<open>None\<close> when \<open>useActor\<close> has none)
  and yields the toasts it raised and its outcome: \<open>Inr\<close> the value the promise resolves
  to, \<open>Inl\<close> the error it rejects with.
\<close>

type_synonym 'a outcome = "toast list \<times> 'a result"

definition actor_not_available :: js_error where
  "actor_not_available = Error (lit ''Actor not available'')"




definition useGetCallerUserRole_queryFn ::
  "('cred, 'pay) actor option \<Rightarrow> UserRole outcome" where
  "useGetCallerUserRole_queryFn a =
     (case a of
        None \<Rightarrow> ([], Inl actor_not_available)
      | Some actor \<Rightarrow>
          (case getCallerUserRole actor of
             Inr role \<Rightarrow> ([], Inr role)
           | Inl error \<Rightarrow> ([], Inr guest)))"







text \<open>
  The fallback configuration of \<open>useGetInvoiceConfigForUser\<close> in \<open>useQueries.ts\<close>; its
  description is \<open>Railway\<close>, a Cyrillic word, \<open>12\<close> and a second Cyrillic word.
\<close>

definition fallback_config :: QPayInvoiceConfig where
  "fallback_config =
     \<lparr>sender_invoice_no = lit ''12345678'',
      invoice_receiver_code = lit ''terminal'',
      invoice_description =
        lit ''Railway '' @ [0x44D, 0x440, 0x445] @ lit '' 12'' @ [0x441, 0x430, 0x440],
      amount = 10\<rparr>"

definition useGetInvoiceConfigForUser_queryFn ::
  "('cred, 'pay) actor option \<Rightarrow> QPayInvoiceConfig option outcome" where
  "useGetInvoiceConfigForUser_queryFn a =
     (case a of
        None \<Rightarrow> ([], Inr None)
      | Some actor \<Rightarrow>
          (case getQPayInvoiceConfig actor of
             Inr config \<Rightarrow> ([], Inr (Some config))
           | Inl error \<Rightarrow> ([], Inr (Some fallback_config))))"


subsection \<open>The second version of the hooks (the plain JavaScript file)\<close>

text \<open>
  The JavaScript version of the role hook returns \<open>UserRole.guest\<close> where the TypeScript
  one returns the string \<open>guest\<close> cast to the role type.
\<close>

definition useGetCallerUserRole_queryFn_js ::
  "('cred, 'pay) actor option \<Rightarrow> UserRole outcome" where
  "useGetCallerUserRole_queryFn_js a =
     (case a of
        None \<Rightarrow> ([], Inl actor_not_available)
      | Some actor \<Rightarrow>
          (case getCallerUserRole actor of
             Inr role \<Rightarrow> ([], Inr role)
           | Inl error \<Rightarrow> ([], Inr guest)))"

definition fallback_config_js :: QPayInvoiceConfig where
  "fallback_config_js =
     \<lparr>sender_invoice_no = lit ''12345678'',
      invoice_receiver_code = lit ''terminal'',
      invoice_description = lit ''Railway subscription 12 months'',
      amount = 10\<rparr>"

definition useGetInvoiceConfigForUser_queryFn_js ::
  "('cred, 'pay) actor option \<Rightarrow> QPayInvoiceConfig option outcome" where
  "useGetInvoiceConfigForUser_queryFn_js a =
     (case a of
        None \<Rightarrow> ([], Inr (Some fallback_config_js))
      | Some actor \<Rightarrow>
          (case getQPayInvoiceConfig actor of
             Inr config \<Rightarrow> ([], Inr (Some config))
           | Inl error \<Rightarrow> ([], Inr (Some fallback_config_js))))"

section \<open>The QR image of the user dashboard\<close>

definition getQRImageUrl :: "jsstring \<Rightarrow> jsstring" where
  "getQRImageUrl qrImage =
     (if startsWith qrImage (lit ''data:'') then qrImage
      else lit ''data:image/png;base64,'' @ qrImage)"

section \<open>Saving the profile\<close>

text \<open>The calls the front end makes on the backend actor, as they appear in a trace.\<close>

datatype backend_call =
    SaveCallerUserProfile UserProfile
  | EnsureCallerUserRole
  | CheckForValidInvoice
  | MakeQPayTokenRequest
  | GetValidOrCreateInvoice jsval
  | StoreUserInvoice jsval jsstring int
  | RecordPayment int jsstring
  | CheckPaymentStatus jsval jsval

text \<open>
  \<open>handleSubmit\<close> of \<open>ProfileSetupModal\<close>: the result is the profile handed to
  \<open>saveProfile.mutate\<close>, or \<open>None\<close> when the handler returns before calling it.
\<close>

definition handleSubmit :: "jsstring \<Rightarrow> UserProfile option" where
  "handleSubmit nm = (if trim nm = [] then None else Some \<lparr>name = trim nm\<rparr>)"

text \<open>
  The mutation function of \<open>useSaveCallerUserProfile\<close>: the backend calls it makes and
  its outcome.
\<close>

definition name_is_required :: js_error where
  "name_is_required = Error (lit ''Name is required'')"

definition useSaveCallerUserProfile_mutationFn ::
  "('cred, 'pay) actor option \<Rightarrow> UserProfile \<Rightarrow> backend_call list \<times> unit result" where
  "useSaveCallerUserProfile_mutationFn a profile =
     (case a of
        None \<Rightarrow> ([], Inl actor_not_available)
      | Some actor \<Rightarrow>
          if name profile = [] \<or> trim (name profile) = [] then ([], Inl name_is_required)
          else ([SaveCallerUserProfile profile], saveCallerUserProfile actor profile))"

text \<open>
  Submitting the form: the backend calls that result from \<open>handleSubmit\<close>, which runs the
  mutation function once when it calls \<open>mutate\<close> (the mutation has no retry option).
\<close>

definition submit_profile_form ::
  "('cred, 'pay) actor option \<Rightarrow> jsstring \<Rightarrow> backend_call list" where
  "submit_profile_form a nm =
     (case handleSubmit nm of
        None \<Rightarrow> []
      | Some profile \<Rightarrow> fst (useSaveCallerUserProfile_mutationFn a profile))"

text \<open>A name that is empty or consists of white space only.\<close>

definition blank :: "jsstring \<Rightarrow> bool" where
  "blank s \<longleftrightarrow> (\<forall>c \<in> set s. js_whitespace c)"

section \<open>Registration\<close>

text \<open>
  The backend's answers to successive calls of \<open>ensureCallerUserRole\<close>: the answer to the
  call made after \<open>k\<close> earlier ones.
\<close>

type_synonym registration_backend = "nat \<Rightarrow> unit result"

text \<open>The options \<open>retry: 3\<close> and \<open>retryDelay\<close> of \<open>useEnsureUserRegistration\<close>.\<close>

definition registration_retry :: nat where
  "registration_retry = 3"

definition retryDelay :: "nat \<Rightarrow> nat" where
  "retryDelay attemptIndex = min (1000 * 2 ^ attemptIndex) 5000"

text \<open>
  The mutation function of \<open>useEnsureUserRegistration\<close>, given whether the hook has an
  actor and the number of backend calls made so far: the number of calls made
  afterwards and the outcome.
\<close>

definition useEnsureUserRegistration_mutationFn ::
  "bool \<Rightarrow> registration_backend \<Rightarrow> nat \<Rightarrow> nat \<times> unit result" where
  "useEnsureUserRegistration_mutationFn has_actor backend k =
     (if \<not> has_actor then (k, Inl actor_not_available) else (Suc k, backend k))"

text \<open>
  One \<open>mutate\<close> of the registration mutation under the retry policy of the query library:
  the mutation function is run, and run again after a failure as long as fewer failures
  than the retry option have been counted. The arguments are the number of calls made
  so far, the failures counted and the retries left; the result is the number of calls
  made afterwards, the delays waited between attempts and the final outcome.
\<close>

fun mutate_registration ::
  "bool \<Rightarrow> registration_backend \<Rightarrow> nat \<Rightarrow> nat \<Rightarrow> nat \<Rightarrow> nat \<times> nat list \<times> unit result"
  where
  "mutate_registration has_actor backend k failures 0 =
     (case useEnsureUserRegistration_mutationFn has_actor backend k of
        (k', res) \<Rightarrow> (k', [], res))"
| "mutate_registration has_actor backend k failures (Suc r) =
     (case useEnsureUserRegistration_mutationFn has_actor backend k of
        (k', Inr u) \<Rightarrow> (k', [], Inr u)
      | (k', Inl e) \<Rightarrow>
          (case mutate_registration has_actor backend k' (Suc failures) r of
             (k'', delays, res) \<Rightarrow> (k'', retryDelay failures # delays, res)))"

text \<open>
  The registration state of \<open>AppContent\<close>, with the number of backend calls made and
  whether the timer of the error handler (2000 ms) is waiting to fire.
\<close>

record app_state =
  registrationComplete :: bool
  registrationAttempted :: bool
  initError :: "jsstring option"
  registration_calls :: nat
  retry_timer_pending :: bool

definition app_initial :: app_state where
  "app_initial =
     \<lparr>registrationComplete = False, registrationAttempted = False, initError = None,
      registration_calls = 0, retry_timer_pending = False\<rparr>"

text \<open>
  The registration effect of \<open>AppContent\<close>, run to the point where the mutation has
  settled and its \<open>onSuccess\<close> or \<open>onError\<close> callback has run; the mutation is therefore
  never pending when the effect runs. The hook and the component read the same actor, so
  the hook has one when \<open>isActorReady\<close> holds.
\<close>

definition registration_effect ::
  "registration_backend \<Rightarrow> bool \<Rightarrow> bool \<Rightarrow> app_state \<Rightarrow> app_state" where
  "registration_effect backend isAuthenticated isActorReady s =
     (if isAuthenticated \<and> isActorReady \<and> \<not> registrationAttempted s then
        (let s1 = s\<lparr>registrationAttempted := True, initError := None\<rparr> in
         case mutate_registration True backend (registration_calls s1) 0 registration_retry of
           (k', delays, Inr u) \<Rightarrow>
             s1\<lparr>registration_calls := k', registrationComplete := True\<rparr>
         | (k', delays, Inl error) \<Rightarrow>
             s1\<lparr>registration_calls := k',
                initError := Some (if message error = [] then lit ''Registration failed''
                                   else message error),
                retry_timer_pending := True\<rparr>)
      else s)"

text \<open>The callback of the 2000 ms timer that \<open>onError\<close> sets.\<close>

definition retry_timer_fires :: "app_state \<Rightarrow> app_state" where
  "retry_timer_fires s =
     s\<lparr>registrationAttempted := False, initError := None, retry_timer_pending := False\<rparr>"

text \<open>
  A run of the app with the user logged in and the actor ready, observed until the
  retry timer has fired \<open>n\<close> times: the effect runs, and runs again after each firing of
  the timer, which resets \<open>registrationAttempted\<close>.
\<close>

fun app_run :: "registration_backend \<Rightarrow> nat \<Rightarrow> app_state \<Rightarrow> app_state" where
  "app_run backend 0 s = registration_effect backend True True s"
| "app_run backend (Suc n) s =
     (let s' = registration_effect backend True True s in
      if retry_timer_pending s' then app_run backend n (retry_timer_fires s') else s')"

definition always_failing :: registration_backend where
  "always_failing = (\<lambda>k. Inl (Error (lit ''Network unreachable'')))"

section \<open>Formatting a timestamp\<close>








section \<open>The payment flow\<close>


text \<open>What the flow does, in order: the toasts it raises and the backend calls it makes.\<close>

datatype event = Toast toast | Call backend_call












text \<open>The backend calls of a trace, and the kinds of call the properties speak of.\<close>

definition calls :: "event list \<Rightarrow> backend_call list" where
  "calls evs = concat (map (\<lambda>ev. case ev of Call c \<Rightarrow> [c] | Toast t \<Rightarrow> []) evs)"





section \<open>The user dashboard: state, timers and effects\<close>




subsection \<open>The timer functions of the browser\<close>





subsection \<open>The functions of the component\<close>











subsection \<open>Rendering: when React runs the effects\<close>






subsection \<open>Events\<close>














section \<open>Invariants of the user dashboard\<close>






section \<open>Example backends\<close>

text \<open>
  A concrete actor for evaluating the hooks, whose every method rejects with the same
  error, and two errors.
\<close>

definition rejecting_actor :: "js_error \<Rightarrow> (unit, unit) actor" where
  "rejecting_actor e =
     \<lparr>getCallerUserProfile = Inl e,
      ensureCallerUserRole = Inl e,
      getCallerUserRole = Inl e,
      saveCallerUserProfile = (\<lambda>_. Inl e),
      isCallerAdmin = Inl e,
      getQPayCredentials = Inl e,
      getQPayInvoiceConfig = Inl e,
      getUserPayments = Inl e,
      getAllPayments = Inl e,
      getAllInvoices = Inl e,
      getUserInvoice = Inl e,
      checkForValidInvoice = Inl e,
      makeQPayTokenRequest = Inl e,
      getValidOrCreateInvoice = (\<lambda>_. Inl e),
      storeUserInvoice = (\<lambda>_ _ _. Inl e),
      checkPaymentStatus = (\<lambda>_ _. Inl e),
      recordPayment = (\<lambda>_ _. Inl e)\<rparr>"

definition network_error :: js_error where
  "network_error = Error (lit ''Network unreachable'')"


definition sample_config :: QPayInvoiceConfig where
  "sample_config =
     \<lparr>sender_invoice_no = lit ''INV-2024-0001'',
      invoice_receiver_code = lit ''terminal'',
      invoice_description = lit ''Monthly plan'',
      amount = 2500\<rparr>"













section \<open>Properties of the query functions\<close>



text \<open>
  C6. When the backend call \<open>getCallerUserRole\<close> rejects, whatever the error, the query
  function of \<open>useGetCallerUserRole\<close> (in both versions of the hooks) resolves to the
  role \<open>guest\<close> and raises no toast; the error does not propagate.
\<close>

theorem role_query_defaults_to_guest:
  assumes "getCallerUserRole actor = Inl e"
  shows "useGetCallerUserRole_queryFn (Some actor) = ([], Inr guest)
       \<and> useGetCallerUserRole_queryFn_js (Some actor) = ([], Inr guest)"
  using assms
  by (simp add: useGetCallerUserRole_queryFn_def useGetCallerUserRole_queryFn_js_def)

theorem role_query_defaults_to_guest_witness:
  "getCallerUserRole (rejecting_actor network_error) = Inl network_error
   \<and> useGetCallerUserRole_queryFn (Some (rejecting_actor network_error)) = ([], Inr guest)
   \<and> useGetCallerUserRole_queryFn_js (Some (rejecting_actor network_error)) = ([], Inr guest)"
proof -
  have h: "getCallerUserRole (rejecting_actor network_error) = Inl network_error"
    by (simp add: rejecting_actor_def)
  from h role_query_defaults_to_guest [OF h] show ?thesis
    by simp
qed




text \<open>
  C8, as the claim states it, fails: with no actor the TypeScript query function of
  \<open>useGetInvoiceConfigForUser\<close> resolves to \<open>null\<close>, the JavaScript one to its default
  configuration.
\<close>

theorem invoice_config_for_user_versions_differ:
  "useGetInvoiceConfigForUser_queryFn (None :: (unit, unit) actor option) = ([], Inr None)
   \<and> useGetInvoiceConfigForUser_queryFn_js (None :: (unit, unit) actor option)
       = ([], Inr (Some fallback_config_js))
   \<and> useGetInvoiceConfigForUser_queryFn (None :: (unit, unit) actor option)
       \<noteq> useGetInvoiceConfigForUser_queryFn_js None"
  by (simp add: useGetInvoiceConfigForUser_queryFn_def
      useGetInvoiceConfigForUser_queryFn_js_def)

lemma fallback_descriptions_differ:
  "invoice_description fallback_config \<noteq> invoice_description fallback_config_js"
proof
  assume "invoice_description fallback_config = invoice_description fallback_config_js"
  then have "length (invoice_description fallback_config)
               = length (invoice_description fallback_config_js)"
    by simp
  then show False
    by (simp add: fallback_config_def fallback_config_js_def lit_def)
qed

text \<open>
  C8, amended. The two versions of the query function of \<open>useGetInvoiceConfigForUser\<close>
  return the same value exactly when the actor is available and the backend call
  succeeds, and then both return the backend's configuration. With no actor the
  TypeScript version returns \<open>null\<close> and the JavaScript version its default configuration;
  when the backend call rejects, each returns its own default configuration, and the two
  defaults agree on the invoice number, the receiver code and the amount but not on the
  description.
\<close>

theorem invoice_config_for_user_versions_agree_iff:
  fixes a :: "('cred, 'pay) actor option"
  shows
    "(useGetInvoiceConfigForUser_queryFn a = useGetInvoiceConfigForUser_queryFn_js a
        \<longleftrightarrow> (\<exists>actor config. a = Some actor \<and> getQPayInvoiceConfig actor = Inr config))
   \<and> (\<forall>actor config. a = Some actor \<and> getQPayInvoiceConfig actor = Inr config \<longrightarrow>
          useGetInvoiceConfigForUser_queryFn a = ([], Inr (Some config))
        \<and> useGetInvoiceConfigForUser_queryFn_js a = ([], Inr (Some config)))
   \<and> (\<forall>actor e. a = Some actor \<and> getQPayInvoiceConfig actor = Inl e \<longrightarrow>
          useGetInvoiceConfigForUser_queryFn a = ([], Inr (Some fallback_config))
        \<and> useGetInvoiceConfigForUser_queryFn_js a = ([], Inr (Some fallback_config_js)))
   \<and> (a = None \<longrightarrow>
          useGetInvoiceConfigForUser_queryFn a = ([], Inr None)
        \<and> useGetInvoiceConfigForUser_queryFn_js a = ([], Inr (Some fallback_config_js)))
   \<and> sender_invoice_no fallback_config = sender_invoice_no fallback_config_js
   \<and> invoice_receiver_code fallback_config = invoice_receiver_code fallback_config_js
   \<and> amount fallback_config = amount fallback_config_js
   \<and> invoice_description fallback_config \<noteq> invoice_description fallback_config_js"
proof -
  have neq: "fallback_config \<noteq> fallback_config_js"
    using fallback_descriptions_differ by auto
  have "useGetInvoiceConfigForUser_queryFn a = useGetInvoiceConfigForUser_queryFn_js a
        \<longleftrightarrow> (\<exists>actor config. a = Some actor \<and> getQPayInvoiceConfig actor = Inr config)"
  proof (cases a)
    case None
    then show ?thesis
      by (simp add: useGetInvoiceConfigForUser_queryFn_def
          useGetInvoiceConfigForUser_queryFn_js_def)
  next
    case (Some actor)
    then show ?thesis
      using neq
      by (cases "getQPayInvoiceConfig actor")
        (simp_all add: useGetInvoiceConfigForUser_queryFn_def
          useGetInvoiceConfigForUser_queryFn_js_def)
  qed
  moreover have "sender_invoice_no fallback_config = sender_invoice_no fallback_config_js"
    "invoice_receiver_code fallback_config = invoice_receiver_code fallback_config_js"
    "amount fallback_config = amount fallback_config_js"
    by (simp_all add: fallback_config_def fallback_config_js_def)
  ultimately show ?thesis
    using fallback_descriptions_differ
    by (simp add: useGetInvoiceConfigForUser_queryFn_def
        useGetInvoiceConfigForUser_queryFn_js_def)
qed

section \<open>Properties of the QR image address\<close>

lemma data_prefix_of_png_prefix: "prefix (lit ''data:'') (lit ''data:image/png;base64,'' @ s)"
  by (simp add: lit_def)

text \<open>
  C9. \<open>getQRImageUrl\<close> always returns a string that begins with \<open>data:\<close>. An input that
  already begins with \<open>data:\<close> is returned unchanged, every other input is returned with
  \<open>data:image/png;base64,\<close> in front, and applying the function twice gives the same as
  applying it once.
\<close>

theorem getQRImageUrl_data_prefix_idempotent:
  "startsWith (getQRImageUrl s) (lit ''data:'')
   \<and> (startsWith s (lit ''data:'') \<longrightarrow> getQRImageUrl s = s)
   \<and> (\<not> startsWith s (lit ''data:'') \<longrightarrow>
        getQRImageUrl s = lit ''data:image/png;base64,'' @ s)
   \<and> getQRImageUrl (getQRImageUrl s) = getQRImageUrl s"
  using data_prefix_of_png_prefix [of s]
  by (simp add: getQRImageUrl_def startsWith_def)

theorem getQRImageUrl_data_prefix_idempotent_witness:
  "startsWith (lit ''data:image/gif;base64,R0lG'') (lit ''data:'')
   \<and> getQRImageUrl (lit ''data:image/gif;base64,R0lG'') = lit ''data:image/gif;base64,R0lG''
   \<and> \<not> startsWith (lit ''iVBORw0KGgo='') (lit ''data:'')
   \<and> getQRImageUrl (lit ''iVBORw0KGgo='') = lit ''data:image/png;base64,iVBORw0KGgo=''
   \<and> getQRImageUrl (getQRImageUrl (lit ''iVBORw0KGgo=''))
       = lit ''data:image/png;base64,iVBORw0KGgo=''"
proof -
  have a: "startsWith (lit ''data:image/gif;base64,R0lG'') (lit ''data:'')"
    by (simp add: startsWith_def lit_def)
  have b: "\<not> startsWith (lit ''iVBORw0KGgo='') (lit ''data:'')"
    by (simp add: startsWith_def lit_def)
  have c: "lit ''data:image/png;base64,'' @ lit ''iVBORw0KGgo=''
             = lit ''data:image/png;base64,iVBORw0KGgo=''"
    by (simp add: lit_def)
  note t1 = getQRImageUrl_data_prefix_idempotent [of "lit ''data:image/gif;base64,R0lG''"]
  note t2 = getQRImageUrl_data_prefix_idempotent [of "lit ''iVBORw0KGgo=''"]
  from t1 a have e1:
    "getQRImageUrl (lit ''data:image/gif;base64,R0lG'') = lit ''data:image/gif;base64,R0lG''"
    by blast
  from t2 b have "getQRImageUrl (lit ''iVBORw0KGgo='')
                    = lit ''data:image/png;base64,'' @ lit ''iVBORw0KGgo=''"
    by blast
  with c have e2:
    "getQRImageUrl (lit ''iVBORw0KGgo='') = lit ''data:image/png;base64,iVBORw0KGgo=''"
    by (simp only:)
  from t2 have "getQRImageUrl (getQRImageUrl (lit ''iVBORw0KGgo=''))
                  = getQRImageUrl (lit ''iVBORw0KGgo='')"
    by blast
  from this e2 have e3: "getQRImageUrl (getQRImageUrl (lit ''iVBORw0KGgo=''))
                      = lit ''data:image/png;base64,iVBORw0KGgo=''"
    by (rule trans)
  from a e1 b e2 e3 show ?thesis
    by blast
qed

theorem invoice_config_for_user_versions_agree_iff_witness:
  "useGetInvoiceConfigForUser_queryFn
       (Some ((rejecting_actor network_error)\<lparr>getQPayInvoiceConfig := Inr sample_config\<rparr>))
     = useGetInvoiceConfigForUser_queryFn_js
         (Some ((rejecting_actor network_error)\<lparr>getQPayInvoiceConfig := Inr sample_config\<rparr>))
   \<and> useGetInvoiceConfigForUser_queryFn
         (Some ((rejecting_actor network_error)\<lparr>getQPayInvoiceConfig := Inr sample_config\<rparr>))
       = ([], Inr (Some sample_config))
   \<and> useGetInvoiceConfigForUser_queryFn (Some (rejecting_actor network_error))
       = ([], Inr (Some fallback_config))
   \<and> useGetInvoiceConfigForUser_queryFn_js (Some (rejecting_actor network_error))
       = ([], Inr (Some fallback_config_js))
   \<and> useGetInvoiceConfigForUser_queryFn (None :: (unit, unit) actor option) = ([], Inr None)"
proof -
  let ?ok = "(rejecting_actor network_error)\<lparr>getQPayInvoiceConfig := Inr sample_config\<rparr>"
  have ok: "Some ?ok = Some ?ok \<and> getQPayInvoiceConfig ?ok = Inr sample_config"
    by simp
  have bad: "Some (rejecting_actor network_error) = Some (rejecting_actor network_error)
             \<and> getQPayInvoiceConfig (rejecting_actor network_error) = Inl network_error"
    by (simp add: rejecting_actor_def)
  from ok invoice_config_for_user_versions_agree_iff [of "Some ?ok"]
  have 1: "useGetInvoiceConfigForUser_queryFn (Some ?ok)
             = useGetInvoiceConfigForUser_queryFn_js (Some ?ok)
           \<and> useGetInvoiceConfigForUser_queryFn (Some ?ok) = ([], Inr (Some sample_config))"
    by blast
  from bad invoice_config_for_user_versions_agree_iff [of "Some (rejecting_actor network_error)"]
  have 2: "useGetInvoiceConfigForUser_queryFn (Some (rejecting_actor network_error))
             = ([], Inr (Some fallback_config))
           \<and> useGetInvoiceConfigForUser_queryFn_js (Some (rejecting_actor network_error))
             = ([], Inr (Some fallback_config_js))"
    by blast
  from invoice_config_for_user_versions_agree_iff [of "None :: (unit, unit) actor option"]
  have 3: "useGetInvoiceConfigForUser_queryFn (None :: (unit, unit) actor option)
             = ([], Inr None)"
    by blast
  from 1 2 3 show ?thesis
    by blast
qed

section \<open>Properties of saving the profile\<close>

lemma trim_Nil_iff: "trim s = [] \<longleftrightarrow> blank s"
proof -
  have "(\<forall>c \<in> set (dropWhile js_whitespace s). js_whitespace c)
          \<longleftrightarrow> (\<forall>c \<in> set s. js_whitespace c)"
  proof
    assume h: "\<forall>c \<in> set (dropWhile js_whitespace s). js_whitespace c"
    have "set s = set (takeWhile js_whitespace s) \<union> set (dropWhile js_whitespace s)"
      by (metis set_append takeWhile_dropWhile_id)
    with h show "\<forall>c \<in> set s. js_whitespace c"
      by (auto dest: set_takeWhileD)
  next
    assume "\<forall>c \<in> set s. js_whitespace c"
    then show "\<forall>c \<in> set (dropWhile js_whitespace s). js_whitespace c"
      by (auto dest: set_dropWhileD)
  qed
  then show ?thesis
    by (simp add: trim_def blank_def)
qed

lemma blank_three_spaces: "blank (lit ''   '')"
  by (simp add: blank_def lit_def js_whitespace_def)

text \<open>
  C5, as the claim states it, fails in its last part: given a name of white space only,
  the mutation function of \<open>useSaveCallerUserProfile\<close> without an actor fails with
  \<open>Actor not available\<close>, not with \<open>Name is required\<close> (the actor is checked first).
\<close>

theorem blank_name_without_actor_fails_differently:
  "blank (lit ''   '')
   \<and> useSaveCallerUserProfile_mutationFn (None :: (unit, unit) actor option)
         \<lparr>name = lit ''   ''\<rparr>
       = ([], Inl actor_not_available)
   \<and> actor_not_available \<noteq> name_is_required"
  using blank_three_spaces
  by (simp add: useSaveCallerUserProfile_mutationFn_def actor_not_available_def
      name_is_required_def lit_def)

text \<open>
  C5, amended. For a name that is empty or white space only, \<open>handleSubmit\<close> returns
  without calling \<open>mutate\<close>, so that submitting the form makes no backend call, and the
  mutation function of \<open>useSaveCallerUserProfile\<close> makes no backend call either: it
  fails with \<open>Name is required\<close> when the actor is available and with
  \<open>Actor not available\<close> when it is not.
\<close>

theorem blank_name_never_saved:
  assumes "blank nm"
  shows "handleSubmit nm = None
       \<and> submit_profile_form a nm = []
       \<and> fst (useSaveCallerUserProfile_mutationFn a \<lparr>name = nm\<rparr>) = []
       \<and> (a \<noteq> None \<longrightarrow>
            snd (useSaveCallerUserProfile_mutationFn a \<lparr>name = nm\<rparr>) = Inl name_is_required)
       \<and> (a = None \<longrightarrow>
            snd (useSaveCallerUserProfile_mutationFn a \<lparr>name = nm\<rparr>)
              = Inl actor_not_available)"
  using assms
  by (auto simp: handleSubmit_def submit_profile_form_def
      useSaveCallerUserProfile_mutationFn_def trim_Nil_iff split: option.splits)

theorem blank_name_never_saved_witness:
  "blank (lit ''   '')
   \<and> handleSubmit (lit ''   '') = None
   \<and> submit_profile_form (Some (rejecting_actor network_error)) (lit ''   '') = []
   \<and> useSaveCallerUserProfile_mutationFn (Some (rejecting_actor network_error))
         \<lparr>name = lit ''   ''\<rparr>
       = ([], Inl name_is_required)"
proof -
  note t = blank_name_never_saved [OF blank_three_spaces,
      of "Some (rejecting_actor network_error)"]
  from t have "useSaveCallerUserProfile_mutationFn (Some (rejecting_actor network_error))
                 \<lparr>name = lit ''   ''\<rparr> = ([], Inl name_is_required)"
    by (simp add: prod_eq_iff)
  with t blank_three_spaces show ?thesis
    by blast
qed

section \<open>Properties of the registration\<close>

lemma mutate_registration_calls:
  "k \<le> fst (mutate_registration has_actor backend k f r)
   \<and> (has_actor \<longrightarrow> k < fst (mutate_registration has_actor backend k f r))
   \<and> fst (mutate_registration has_actor backend k f r) \<le> k + r + 1"
proof (induction r arbitrary: k f)
  case 0
  then show ?case
    by (simp add: useEnsureUserRegistration_mutationFn_def)
next
  case (Suc r)
  show ?case
  proof (cases has_actor)
    case False
    with Suc [of k "Suc f"] show ?thesis
      by (auto simp: useEnsureUserRegistration_mutationFn_def split: prod.splits)
  next
    case True
    show ?thesis
    proof (cases "backend k")
      case (Inl e)
      with True Suc [of "Suc k" "Suc f"] show ?thesis
        by (auto simp: useEnsureUserRegistration_mutationFn_def split: prod.splits)
    next
      case (Inr u)
      with True show ?thesis
        by (simp add: useEnsureUserRegistration_mutationFn_def)
    qed
  qed
qed

lemma mutate_registration_always_failing:
  "mutate_registration True always_failing k f r
     = (k + r + 1, map retryDelay [f..<f + r], Inl (Error (lit ''Network unreachable'')))"
proof (induction r arbitrary: k f)
  case 0
  then show ?case
    by (simp add: always_failing_def useEnsureUserRegistration_mutationFn_def)
next
  case (Suc r)
  have "[f..<f + Suc r] = f # [Suc f..<Suc f + r]"
    by (simp add: upt_conv_Cons)
  with Suc [of "Suc k" "Suc f"] show ?case
    by (simp add: always_failing_def useEnsureUserRegistration_mutationFn_def)
qed

lemma registration_effect_always_failing:
  assumes "\<not> registrationAttempted s"
  shows "registration_calls (registration_effect always_failing True True s)
           = registration_calls s + 4"
    and "retry_timer_pending (registration_effect always_failing True True s)"
  using assms
  by (simp_all add: registration_effect_def mutate_registration_always_failing
      registration_retry_def)

lemma app_run_always_failing:
  "\<not> registrationAttempted s \<Longrightarrow>
     registration_calls (app_run always_failing n s) = registration_calls s + 4 * (n + 1)"
proof (induction n arbitrary: s)
  case 0
  then show ?case by (simp add: registration_effect_always_failing)
next
  case (Suc n)
  let ?s' = "registration_effect always_failing True True s"
  have "\<not> registrationAttempted (retry_timer_fires ?s')"
    by (simp add: retry_timer_fires_def)
  from Suc.IH [OF this] Suc.prems show ?case
    by (simp add: registration_effect_always_failing Let_def retry_timer_fires_def)
qed

text \<open>
  C4, as the claim states it, fails: with a backend that always rejects, no constant
  bounds the number of calls of \<open>ensureCallerUserRole\<close> over the runs of the app. Each
  time the mutation has failed, the error handler of \<open>AppContent\<close> resets
  \<open>registrationAttempted\<close> after 2000 ms and the effect calls \<open>mutate\<close> again.
\<close>

theorem registration_attempts_unbounded:
  "\<not> (\<exists>K. \<forall>n. registration_calls (app_run always_failing n app_initial) \<le> K)"
proof
  assume "\<exists>K. \<forall>n. registration_calls (app_run always_failing n app_initial) \<le> K"
  then obtain K where "\<forall>n. registration_calls (app_run always_failing n app_initial) \<le> K" ..
  then have "registration_calls (app_run always_failing K app_initial) \<le> K" ..
  moreover have "registration_calls (app_run always_failing K app_initial) = 4 * (K + 1)"
    using app_run_always_failing [of app_initial K] by (simp add: app_initial_def)
  ultimately show False by simp
qed

text \<open>
  C4, amended. One \<open>mutate\<close> of the registration mutation calls
  \<open>ensureCallerUserRole\<close> at most four times (the first attempt and three retries),
  whatever the backend answers. The app calls \<open>mutate\<close> again after
  each failed one, so with a backend that always rejects it has made \<open>4 * (n + 1)\<close> calls
  once its retry timer has fired \<open>n\<close> times, waiting 1000, 2000 and 4000 ms between the
  attempts of one \<open>mutate\<close>.
\<close>

theorem registration_attempts_bounded_per_mutate:
  "k \<le> fst (mutate_registration has_actor backend k 0 registration_retry)
   \<and> fst (mutate_registration has_actor backend k 0 registration_retry) \<le> k + 4
   \<and> mutate_registration True always_failing k 0 registration_retry
       = (k + 4, [1000, 2000, 4000], Inl (Error (lit ''Network unreachable'')))
   \<and> registration_calls (app_run always_failing n app_initial) = 4 * (n + 1)"
proof -
  have "[0..<3] = [0, 1, 2]"
    by (simp add: upt_conv_Cons)
  then have "map retryDelay [0..<0 + 3] = [1000, 2000, 4000]"
    by (simp add: retryDelay_def)
  with mutate_registration_always_failing [of k 0 3]
  have "mutate_registration True always_failing k 0 registration_retry
          = (k + 4, [1000, 2000, 4000], Inl (Error (lit ''Network unreachable'')))"
    by (simp add: registration_retry_def)
  moreover have "registration_calls (app_run always_failing n app_initial) = 4 * (n + 1)"
    using app_run_always_failing [of app_initial n] by (simp add: app_initial_def)
  ultimately show ?thesis
    using mutate_registration_calls [of k has_actor backend 0 registration_retry]
    by (simp add: registration_retry_def)
qed

section \<open>Properties of the timestamp format\<close>






section \<open>Properties of the payment flow\<close>

lemma calls_simps [simp]:
  "calls [] = []"
  "calls (Call c # evs) = c # calls evs"
  "calls (Toast t # evs) = calls evs"
  "calls (xs @ ys) = calls xs @ calls ys"
  by (simp_all add: calls_def)













section \<open>Properties of the user dashboard\<close>

















































section \<open>The flow and the dashboard on the example backends\<close>














section \<open>Storing the invoice\<close>







section \<open>The order of the payment flow\<close>




section \<open>The polling timer\<close>




end
